theory Spec2Isabelle
  imports Main "HOL-Library.AList" "HOL-Library.Sublist"
begin

section \<open>Python values and exceptions\<close>

text \<open>
  The values that reach the generated commands: \<open>None\<close>, booleans, integers and strings.
  A value of any other Python type (a list bound to an \<open>array\<close> option, a float) enters
  the program only through \<open>str(...)\<close> and as a query parameter handed to the HTTP
  library, so it is represented by the text \<open>str\<close> gives for it.
\<close>

datatype pyval = PyNone | PyBool bool | PyInt int | PyStr string | PyOther string

text \<open>
  Exceptions are values. \<open>TypeError\<close> and \<open>KeyError\<close> are Python's own, with the message
  (the missing key, for \<open>KeyError\<close>); \<open>HTTPStatusError\<close> is what \<open>raise_for_status\<close>
  raises, with the status code; \<open>TransportError\<close> and \<open>DecodingError\<close> are the failures of
  the HTTP library on the connection and on the body (\<open>response.json()\<close>);
  \<open>MissingParameter\<close>, \<open>NoSuchOption\<close>, \<open>NoSuchCommand\<close> and \<open>BadParameter\<close> are the usage
  errors of the command-line library. \<open>OptionTypeError\<close> and \<open>OptionValueError\<close> are the
  \<open>TypeError\<close> and the \<open>ValueError\<close> the command-line library raises for the declaration of
  an option it refuses, with the declaration: the wording of their messages is the
  library's.
\<close>

datatype error =
    TypeError string
  | KeyError string
  | HTTPStatusError nat
  | TransportError string
  | DecodingError string
  | MissingParameter string
  | NoSuchOption string
  | NoSuchCommand string
  | BadParameter string
  | OptionTypeError string
  | OptionValueError string

section \<open>\<open>str_to_type\<close>\<close>

text \<open>The four Python types \<open>int\<close>, \<open>bool\<close>, \<open>str\<close> and \<open>list\<close> that \<open>str_to_type\<close> returns.\<close>

datatype pytype = TInt | TBool | TStr | TList

definition str_to_type :: "string \<Rightarrow> error + pytype" where
  "str_to_type type_name =
     (if type_name = ''integer'' then Inr TInt
      else if type_name = ''boolean'' then Inr TBool
      else if type_name = ''string'' then Inr TStr
      else if type_name = ''array'' then Inr TList
      else Inl (TypeError (''Unknown type: '' @ type_name)))"

section \<open>Strings\<close>

text \<open>
  \<open>s.replace(old, new)\<close>: the occurrences of \<open>old\<close> are found from the left and do not
  overlap. With an empty \<open>old\<close>, Python puts \<open>new\<close> before every character and at the end.
\<close>

function replace :: "string \<Rightarrow> string \<Rightarrow> string \<Rightarrow> string" where
  "replace s old new =
     (if old = [] then new @ concat (map (\<lambda>c. c # new) s)
      else if s = [] then []
      else if prefix old s then new @ replace (drop (length old) s) old new
      else hd s # replace (tl s) old new)"
  by pat_completeness auto
termination
  by (relation "measure (\<lambda>(s, old, new). length s)") auto

declare replace.simps [simp del]


text \<open>
  \<open>s.upper()\<close> on the letters \<open>a\<close> to \<open>z\<close>; every other character is left as it is
  (Python also maps letters beyond ASCII, which no HTTP method name has).
\<close>

definition upper_char :: "char \<Rightarrow> char" where
  "upper_char c =
     (case map_of (zip ''abcdefghijklmnopqrstuvwxyz'' ''ABCDEFGHIJKLMNOPQRSTUVWXYZ'') c of
        None \<Rightarrow> c
      | Some u \<Rightarrow> u)"

definition upper :: "string \<Rightarrow> string" where
  "upper s = map upper_char s"

text \<open>
  \<open>s.lower()\<close> on the letters \<open>A\<close> to \<open>Z\<close>, \<open>c.isalnum()\<close>, \<open>s.isidentifier()\<close> and the
  white space that \<open>s.rstrip()\<close> and \<open>s.lstrip()\<close> take away, for ASCII text (Python also
  knows letters, digits and spaces beyond ASCII).
\<close>

definition ascii_lowercase :: string where
  "ascii_lowercase = ''abcdefghijklmnopqrstuvwxyz''"

definition ascii_uppercase :: string where
  "ascii_uppercase = ''ABCDEFGHIJKLMNOPQRSTUVWXYZ''"

definition digits :: string where
  "digits = ''0123456789''"

definition lower_char :: "char \<Rightarrow> char" where
  "lower_char c =
     (case map_of (zip ascii_uppercase ascii_lowercase) c of
        None \<Rightarrow> c
      | Some l \<Rightarrow> l)"

definition lower :: "string \<Rightarrow> string" where
  "lower s = map lower_char s"

definition isalpha :: "char \<Rightarrow> bool" where
  "isalpha c \<longleftrightarrow> c \<in> set (ascii_lowercase @ ascii_uppercase)"

definition isalnum :: "char \<Rightarrow> bool" where
  "isalnum c \<longleftrightarrow> isalpha c \<or> c \<in> set digits"

definition isidentifier :: "string \<Rightarrow> bool" where
  "isidentifier s =
     (case s of
        [] \<Rightarrow> False
      | c # cs \<Rightarrow>
          (isalpha c \<or> c = CHR ''_'') \<and> list_all (\<lambda>c. isalnum c \<or> c = CHR ''_'') cs)"

definition isspace :: "char \<Rightarrow> bool" where
  "isspace c \<longleftrightarrow>
     c \<in> set [CHR 0x09, CHR 0x0A, CHR 0x0B, CHR 0x0C, CHR 0x0D,
              CHR 0x1C, CHR 0x1D, CHR 0x1E, CHR 0x1F, CHR 0x20]"

definition lstrip :: "string \<Rightarrow> string" where
  "lstrip s = dropWhile isspace s"

definition rstrip :: "string \<Rightarrow> string" where
  "rstrip s = rev (dropWhile isspace (rev s))"

text \<open>\<open>str(v)\<close>: decimal digits for an integer, \<open>True\<close>, \<open>False\<close> and \<open>None\<close> by name.\<close>

function str_nat :: "nat \<Rightarrow> string" where
  "str_nat n =
     (if n < 10 then [''0123456789'' ! n]
      else str_nat (n div 10) @ [''0123456789'' ! (n mod 10)])"
  by pat_completeness auto
termination
  by (relation "measure (\<lambda>n. n)") auto

declare str_nat.simps [simp del]

fun str :: "pyval \<Rightarrow> string" where
  "str PyNone = ''None''"
| "str (PyBool b) = (if b then ''True'' else ''False'')"
| "str (PyInt i) = (if i < 0 then ''-'' @ str_nat (nat (- i)) else str_nat (nat i))"
| "str (PyStr s) = s"
| "str (PyOther s) = s"

text \<open>\<open>print(s)\<close> writes \<open>s\<close> and a newline; the model returns what was written.\<close>

definition print :: "string \<Rightarrow> string" where
  "print s = s @ [CHR 0x0A]"

section \<open>The description's parameters\<close>

text \<open>
  One entry of an operation's \<open>parameters\<close> list. The keys the code reads with
  \<open>parameter[...]\<close> are fields; the keys it reads with \<open>.get\<close> may be absent and are
  options. \<open>in\<close> is the field \<open>par_in\<close>.
\<close>

record schema =
  sch_type :: "string option"
  sch_default :: "pyval option"

record parameter =
  par_name :: string
  par_in :: string
  par_required :: "bool option"
  par_description :: "string option"
  par_schema :: schema

text \<open>\<open>kwargs\<close>, a Python dict from option names to values, in insertion order.\<close>

type_synonym kwargs = "(string \<times> pyval) list"

section \<open>The description document\<close>

text \<open>
  The parsed body of \<open>/openapi.json\<close>, in the shape the program expects. Python dicts
  keep their insertion order and are association lists; every key whose absence the
  program can meet (read with \<open>.get\<close>, or with \<open>[...]\<close> at the top level) is an option.
\<close>

record operation =
  op_summary :: "string option"
  op_description :: "string option"
  op_parameters :: "parameter list option"

record info =
  info_title :: "string option"
  info_description :: "string option"
  info_version :: "string option"

record document =
  doc_info :: "info option"
  doc_openapi :: "string option"
  doc_paths :: "(string \<times> (string \<times> operation) list) list option"

section \<open>The libraries and the process environment\<close>

text \<open>
  The program reaches the network through \<open>httpx.get\<close> and \<open>httpx.request\<close> only. A
  call either raises (a transport failure) or returns a response, whatever its status
  code. \<open>resp_json\<close> is what \<open>response.json()\<close> gives: the parsed body, or nothing when the
  body is not a description document. \<open>os_environ\<close> is \<open>os.environ\<close>.

  \<open>click_convert ty v\<close> is what the command-line library's conversion to the type \<open>ty\<close>
  makes of the value \<open>v\<close>, a text of the command line or a default: the converted value,
  or the exception raised. These conversions (\<open>int(v)\<close>, \<open>str(v)\<close>, \<open>list(v)\<close>, the
  spellings of a boolean) are the library's own and not the same in all its versions; the
  program fixes none of them, so they are left open like the answers of the network.
\<close>

record request =
  req_method :: string
  req_url :: string
  req_params :: kwargs

record response =
  resp_status_code :: nat
  resp_text :: string
  resp_json :: "document option"

record env =
  httpx_get :: "string \<Rightarrow> error + response"
  httpx_request :: "request \<Rightarrow> error + response"
  os_environ :: "string \<rightharpoonup> string"
  click_convert :: "pytype \<Rightarrow> pyval \<Rightarrow> error + pyval"

definition BASE_URL :: string where
  "BASE_URL = ''http://localhost:8000''"

definition COMMAND_NAME :: string where
  "COMMAND_NAME = ''openapi-cli''"

definition PROGRAM_NAME :: string where
  "PROGRAM_NAME = ''OpenAPI CLI''"

definition get_program_version :: "(string \<rightharpoonup> string) \<Rightarrow> string" where
  "get_program_version environ =
     (case environ ''VERSION'' of None \<Rightarrow> ''unknown_version'' | Some v \<Rightarrow> v)"

definition get_program_license :: "(string \<rightharpoonup> string) \<Rightarrow> string" where
  "get_program_license environ =
     (case environ ''LICENSE'' of None \<Rightarrow> ''unknown_license'' | Some v \<Rightarrow> v)"

definition get_program_authors :: "(string \<rightharpoonup> string) \<Rightarrow> string" where
  "get_program_authors environ =
     (case environ ''AUTHORS'' of None \<Rightarrow> ''unknown_authors'' | Some v \<Rightarrow> v)"

text \<open>
  \<open>raise_for_status\<close> lets a 2xx response through and raises on every other status.
\<close>

definition raise_for_status :: "response \<Rightarrow> error + response" where
  "raise_for_status response =
     (if 200 \<le> resp_status_code response \<and> resp_status_code response \<le> 299
      then Inr response
      else Inl (HTTPStatusError (resp_status_code response)))"

section \<open>\<open>create_command\<close>: the body of a generated command\<close>

text \<open>
  The loop of \<open>func\<close> over \<open>path_params\<close>. \<open>filter\<close> is lazy, so the test on \<open>in\<close> is made
  when the loop reaches the parameter. \<open>placeholder name\<close> is \<open>"{" + name + "}"\<close>;
  \<open>kwargs[name]\<close> raises \<open>KeyError\<close> when the key is
  missing; \<open>del kwargs[name]\<close> comes after it.
\<close>

definition placeholder :: "string \<Rightarrow> string" where
  "placeholder name = ''{'' @ name @ ''}''"

fun template_path_params ::
  "parameter list \<Rightarrow> string \<Rightarrow> kwargs \<Rightarrow> error + (string \<times> kwargs)" where
  "template_path_params [] request_path kwargs = Inr (request_path, kwargs)"
| "template_path_params (parameter # parameters) request_path kwargs =
     (if par_in parameter = ''path'' then
        (let name = par_name parameter in
         case map_of kwargs name of
           None \<Rightarrow> Inl (KeyError name)
         | Some v \<Rightarrow>
             template_path_params parameters
               (replace request_path (placeholder name) (str v))
               (AList.delete name kwargs))
      else template_path_params parameters request_path kwargs)"

text \<open>The request \<open>func\<close> hands to \<open>httpx.request\<close>.\<close>

definition func_request ::
  "string \<Rightarrow> string \<Rightarrow> parameter list \<Rightarrow> kwargs \<Rightarrow> error + request" where
  "func_request method path parameters kwargs =
     (case template_path_params parameters path kwargs of
        Inl e \<Rightarrow> Inl e
      | Inr (request_path, kwargs') \<Rightarrow>
          Inr \<lparr>req_method = upper method, req_url = BASE_URL @ request_path,
                req_params = kwargs'\<rparr>)"

text \<open>
  \<open>func\<close>: the request is sent and the text of the response is printed, with no look at
  its status code. The result is what the command wrote to standard output.
\<close>

definition func ::
  "string \<Rightarrow> string \<Rightarrow> parameter list \<Rightarrow> (request \<Rightarrow> error + response) \<Rightarrow> kwargs
     \<Rightarrow> error + string" where
  "func method path parameters request_fn kwargs =
     (case func_request method path parameters kwargs of
        Inl e \<Rightarrow> Inl e
      | Inr r \<Rightarrow>
          (case request_fn r of
             Inl e \<Rightarrow> Inl e
           | Inr response \<Rightarrow> Inr (print (resp_text response))))"

section \<open>Options, commands and groups of the command-line library\<close>

text \<open>
  An option as \<open>click.option\<close> makes it. \<open>opt_name\<close> is the name of the option, the key
  under which its value is handed to the command; \<open>opt_decl\<close> is its spelling on the
  command line and \<open>opt_secondary\<close> the second spelling of a flag, empty when there is
  none; \<open>opt_convert\<close> is the conversion to the type of the option.
\<close>

record click_option =
  opt_name :: string
  opt_decl :: string
  opt_secondary :: string
  opt_help :: "string option"
  opt_default :: pyval
  opt_required :: bool
  opt_type :: pytype
  opt_convert :: "pyval \<Rightarrow> error + pyval"

text \<open>
  The name the library gives an option of one declaration. A leading run of one or two
  equal characters that are not letters or digits is the prefix of the declaration
  (\<open>split_opt\<close>). A declaration with a slash in it declares a flag: the text before the
  slash is its spelling, the text after it the second spelling, and the two may not be
  the same. The name is the spelling without its prefix, with \<open>-\<close> replaced by \<open>_\<close> and in
  lower case; it has to be an identifier. A declaration that is an identifier itself
  would be a name with no spelling, which is refused as well.
\<close>

fun split_opt :: "string \<Rightarrow> string \<times> string" where
  "split_opt [] = ([], [])"
| "split_opt [c] = (if isalnum c then ([], [c]) else ([c], []))"
| "split_opt (c # d # cs) =
     (if isalnum c then ([], c # d # cs)
      else if d = c then ([c, d], cs)
      else ([c], d # cs))"

definition parse_decl :: "string \<Rightarrow> error + (string \<times> string \<times> string)" where
  "parse_decl decl =
     (if isidentifier decl then Inl (OptionTypeError decl)
      else
        (let split_char = (if prefix ''/'' decl then CHR '';'' else CHR ''/'') in
         if split_char \<in> set decl then
           (let first = rstrip (takeWhile (\<lambda>c. c \<noteq> split_char) decl);
                second = lstrip (tl (dropWhile (\<lambda>c. c \<noteq> split_char) decl));
                name = lower (replace (snd (split_opt first)) ''-'' ''_'')
            in if first = second then Inl (OptionValueError decl)
               else if first \<noteq> [] \<and> isidentifier name then Inr (name, first, second)
               else Inl (OptionTypeError decl))
         else
           (let name = lower (replace (snd (split_opt decl)) ''-'' ''_'')
            in if isidentifier name then Inr (name, decl, [])
               else Inl (OptionTypeError decl))))"

text \<open>
  One turn of the loop of \<open>add_parameters\<close>: \<open>click.option(...)(func)\<close> for one parameter.
  The arguments are evaluated first, so an unknown type raises before the library is
  called. The library then names the option from its declaration \<open>--name\<close>; a second
  spelling makes the option a flag, which has to be of type \<open>bool\<close>.
\<close>

definition make_option :: "env \<Rightarrow> parameter \<Rightarrow> error + click_option" where
  "make_option e parameter =
     (let decl = ''--'' @ par_name parameter in
      case str_to_type (case sch_type (par_schema parameter) of
                          None \<Rightarrow> ''string'' | Some t \<Rightarrow> t) of
        Inl err \<Rightarrow> Inl err
      | Inr ty \<Rightarrow>
          (case parse_decl decl of
             Inl err \<Rightarrow> Inl err
           | Inr (name, first, second) \<Rightarrow>
               if second \<noteq> [] \<and> ty \<noteq> TBool then Inl (OptionTypeError decl)
               else
                 Inr \<lparr>opt_name = name,
                      opt_decl = first,
                      opt_secondary = second,
                      opt_help = par_description parameter,
                      opt_default = (case sch_default (par_schema parameter) of
                                       None \<Rightarrow> PyNone | Some d \<Rightarrow> d),
                      opt_required = (case par_required parameter of
                                        None \<Rightarrow> True | Some r \<Rightarrow> r),
                      opt_type = ty,
                      opt_convert = click_convert e ty\<rparr>))"

text \<open>
  A command's callback is a closure: \<open>Func method path parameters\<close> is \<open>func\<close> of
  \<open>create_command\<close> with the variables it captured, \<open>Version\<close> is \<open>version\<close> of \<open>create_cli\<close>.
\<close>

datatype callback = Func string string "parameter list" | Version

record command =
  cmd_name :: string
  cmd_doc :: string
  cmd_params :: "click_option list"
  cmd_callback :: callback

record group =
  grp_name :: string
  grp_doc :: string
  grp_commands :: "(string \<times> command) list"

text \<open>
  \<open>add_parameters\<close>: one \<open>click.option\<close> per parameter, in the order of the list; the
  result is the list of the options in the order in which they were made.
\<close>

fun add_parameters :: "env \<Rightarrow> parameter list \<Rightarrow> error + click_option list" where
  "add_parameters e [] = Inr []"
| "add_parameters e (parameter # parameters) =
     (case make_option e parameter of
        Inl err \<Rightarrow> Inl err
      | Inr opt \<Rightarrow>
          (case add_parameters e parameters of
             Inl err \<Rightarrow> Inl err
           | Inr options \<Rightarrow> Inr (opt # options)))"

text \<open>
  \<open>click.command\<close> takes the options of the function in the reverse of the order in which
  the decorators made them: the parameters of the command are the options of the last
  parameter first.
\<close>

definition create_command ::
  "env \<Rightarrow> string \<Rightarrow> string \<Rightarrow> string \<Rightarrow> parameter list \<Rightarrow> error + command" where
  "create_command e method path documentation parameters =
     (case add_parameters e parameters of
        Inl err \<Rightarrow> Inl err
      | Inr options \<Rightarrow>
          Inr \<lparr>cmd_name = path, cmd_doc = documentation, cmd_params = rev options,
               cmd_callback = Func method path parameters\<rparr>)"

definition create_group :: "string \<Rightarrow> string \<Rightarrow> group" where
  "create_group method documentation =
     \<lparr>grp_name = method, grp_doc = documentation, grp_commands = []\<rparr>"

text \<open>\<open>group.add_command(cmd)\<close> stores the command under its name.\<close>

definition add_command :: "command \<Rightarrow> group \<Rightarrow> group" where
  "add_command cmd g = g\<lparr>grp_commands := AList.update (cmd_name cmd) cmd (grp_commands g)\<rparr>"

section \<open>\<open>create_cli\<close>\<close>

text \<open>
  The root group \<open>main\<close>. The method groups are objects shared between the dict \<open>methods\<close>
  and \<open>main\<close>: \<open>main\<close> gets them before the commands are added to them. So \<open>methods\<close> is the
  store of these objects and \<open>main\<close> holds a reference \<open>MethodRef key\<close> into it; the group
  \<open>meta\<close> is held by \<open>main\<close> alone. A Python set has no order of its own and the library
  finds a command by its name, so \<open>methods\<close> and the commands of \<open>main\<close> are maps.
\<close>

datatype entry = Direct group | MethodRef string

record cli =
  main_doc :: string
  main_commands :: "string \<rightharpoonup> entry"
  main_methods :: "string \<rightharpoonup> group"
  main_json :: document

definition meta :: group where
  "meta =
     \<lparr>grp_name = ''meta'', grp_doc = ''Various meta endpoints.'',
      grp_commands =
        [(''version'',
          \<lparr>cmd_name = ''version'', cmd_doc = ''Output version information and exit'',
           cmd_params = [], cmd_callback = Version\<rparr>)]\<rparr>"

text \<open>
  \<open>reduce(set.union, ...)\<close> over the key sets of the path objects, with no initial value:
  it raises on an empty \<open>paths\<close>.
\<close>

definition method_keys :: "(string \<times> (string \<times> operation) list) list \<Rightarrow> error + string set" where
  "method_keys paths =
     (case map (\<lambda>obj. set (map fst obj)) (map snd paths) of
        [] \<Rightarrow> Inl (TypeError ''reduce() of empty iterable with no initial value'')
      | s # ss \<Rightarrow> Inr (foldl (\<union>) s ss))"

text \<open>The inner loop of \<open>create_cli\<close>, over the methods of one path.\<close>

fun add_operations ::
  "env \<Rightarrow> string \<Rightarrow> (string \<times> operation) list \<Rightarrow> (string \<rightharpoonup> group)
     \<Rightarrow> error + (string \<rightharpoonup> group)" where
  "add_operations e path [] methods = Inr methods"
| "add_operations e path ((method, mobj) # obj) methods =
     (let summary = (case op_summary mobj of None \<Rightarrow> [] | Some s \<Rightarrow> s)
                      @ [CHR 0x0A, CHR 0x0A]
                      @ (case op_description mobj of None \<Rightarrow> [] | Some d \<Rightarrow> d);
          parameters = (case op_parameters mobj of None \<Rightarrow> [] | Some ps \<Rightarrow> ps)
      in case create_command e method path summary parameters of
           Inl err \<Rightarrow> Inl err
         | Inr f \<Rightarrow>
             (case methods method of
                None \<Rightarrow> Inl (KeyError method)
              | Some g \<Rightarrow> add_operations e path obj (methods(method \<mapsto> add_command f g))))"

text \<open>The outer loop, over the paths.\<close>

fun add_paths ::
  "env \<Rightarrow> (string \<times> (string \<times> operation) list) list \<Rightarrow> (string \<rightharpoonup> group)
     \<Rightarrow> error + (string \<rightharpoonup> group)" where
  "add_paths e [] methods = Inr methods"
| "add_paths e ((path, obj) # paths) methods =
     (case add_operations e path obj methods of
        Inl err \<Rightarrow> Inl err
      | Inr methods' \<Rightarrow> add_paths e paths methods')"

text \<open>
  \<open>create_cli\<close> from the parsed document on: the help text of \<open>main\<close> reads \<open>info\<close> and
  \<open>title\<close>, the groups read \<open>paths\<close>. \<open>version\<close> is only defined here; its body runs when
  the command is invoked.
\<close>

definition create_cli_json :: "env \<Rightarrow> document \<Rightarrow> error + cli" where
  "create_cli_json e openapi_json =
     (case doc_info openapi_json of
        None \<Rightarrow> Inl (KeyError ''info'')
      | Some info \<Rightarrow>
     (case info_title info of
        None \<Rightarrow> Inl (KeyError ''title'')
      | Some title \<Rightarrow>
     (let doc = title @ [CHR 0x0A]
                  @ (case info_description info of None \<Rightarrow> [] | Some d \<Rightarrow> d)
      in
      case doc_paths openapi_json of
        None \<Rightarrow> Inl (KeyError ''paths'')
      | Some paths \<Rightarrow>
     (case method_keys paths of
        Inl err \<Rightarrow> Inl err
      | Inr keys \<Rightarrow>
     (let methods = (\<lambda>method.
                       if method \<in> keys
                       then Some (create_group method (''Collection of '' @ method @ '' calls''))
                       else None);
          commands = [''meta'' \<mapsto> Direct meta]
                       ++ (\<lambda>method. if method \<in> keys then Some (MethodRef method) else None)
      in
      case add_paths e paths methods of
        Inl err \<Rightarrow> Inl err
      | Inr methods' \<Rightarrow>
          Inr \<lparr>main_doc = doc, main_commands = commands, main_methods = methods',
               main_json = openapi_json\<rparr>)))))"

definition create_cli :: "env \<Rightarrow> error + cli" where
  "create_cli e =
     (case httpx_get e (BASE_URL @ ''/openapi.json'') of
        Inl err \<Rightarrow> Inl err
      | Inr response \<Rightarrow>
          (case raise_for_status response of
             Inl err \<Rightarrow> Inl err
           | Inr response \<Rightarrow>
               (case resp_json response of
                  None \<Rightarrow> Inl (DecodingError (resp_text response))
                | Some openapi_json \<Rightarrow> create_cli_json e openapi_json)))"

section \<open>Running the program\<close>

text \<open>
  The body of \<open>version\<close>: it reads \<open>info.title\<close>, \<open>info.version\<close> and \<open>openapi\<close> of the
  document when the command runs, and writes six lines.
\<close>

fun join :: "string \<Rightarrow> string list \<Rightarrow> string" where
  "join sep [] = []"
| "join sep [x] = x"
| "join sep (x # y # ys) = x @ sep @ join sep (y # ys)"

definition version :: "document \<Rightarrow> (string \<rightharpoonup> string) \<Rightarrow> error + string" where
  "version openapi_json environ =
     (case doc_info openapi_json of
        None \<Rightarrow> Inl (KeyError ''info'')
      | Some info \<Rightarrow>
     (case info_title info of
        None \<Rightarrow> Inl (KeyError ''title'')
      | Some project_name \<Rightarrow>
     (case info_version info of
        None \<Rightarrow> Inl (KeyError ''version'')
      | Some project_version \<Rightarrow>
     (case doc_openapi openapi_json of
        None \<Rightarrow> Inl (KeyError ''openapi'')
      | Some openapi_version \<Rightarrow>
          Inr (print (join [CHR 0x0A]
            [project_name @ '' '' @ project_version @ '' (OpenAPI: '' @ openapi_version @ '')'',
             ''Generated using '' @ COMMAND_NAME @ '' ('' @ PROGRAM_NAME @ '') ''
               @ get_program_version environ @ ''.'',
             [],
             get_program_license environ,
             [],
             ''Written by '' @ get_program_authors environ]))))))"

text \<open>
  The command line, as far as the program relies on it. It names a group of \<open>main\<close>, a
  command of that group and the options given: \<open>inv_options\<close> has, by the name of the
  option and in the order of the command line, the value given, the text after the
  option or the boolean of the spelling of a flag. When an option is given twice, the
  last one counts.
\<close>

record invocation =
  inv_group :: string
  inv_command :: string
  inv_options :: kwargs

text \<open>
  The value of one option. An option that is not given has its default as value. A value
  of \<open>None\<close> is not converted; it is refused when the option is required. Any other value
  goes through the conversion to the type of the option, which can refuse it.
\<close>

definition process_value :: "click_option \<Rightarrow> kwargs \<Rightarrow> error + pyval" where
  "process_value opt supplied =
     (let given = (case map_of (rev supplied) (opt_name opt) of
                     None \<Rightarrow> PyNone
                   | Some v \<Rightarrow> v);
          v = (if given = PyNone then opt_default opt else given)
      in if v = PyNone then
           (if opt_required opt then Inl (MissingParameter (opt_name opt)) else Inr PyNone)
         else
           (case opt_convert opt v of
              Inl err \<Rightarrow> Inl err
            | Inr v' \<Rightarrow>
                if opt_required opt \<and> v' = PyNone then Inl (MissingParameter (opt_name opt))
                else Inr v'))"

text \<open>
  The values are worked out one option after the other, and each is stored under the
  name of its option in the dict that becomes \<open>kwargs\<close>. The options given on the
  command line come first, in the order in which they were given, then the other
  parameters of the command in their order.
\<close>

fun bind_values :: "click_option list \<Rightarrow> kwargs \<Rightarrow> kwargs \<Rightarrow> error + kwargs" where
  "bind_values [] supplied params = Inr params"
| "bind_values (opt # options) supplied params =
     (case process_value opt supplied of
        Inl err \<Rightarrow> Inl err
      | Inr v \<Rightarrow> bind_values options supplied (AList.update (opt_name opt) v params))"

definition processing_order :: "click_option list \<Rightarrow> kwargs \<Rightarrow> click_option list" where
  "processing_order options supplied =
     sort_key (\<lambda>opt. length (takeWhile (\<lambda>k. k \<noteq> opt_name opt) (map fst supplied))) options"

text \<open>
  What the library does with the command line of a command before it calls the callback.
  The parser is made first: it refuses a spelling that begins with a letter or a digit.
  Parsing refuses an option the command does not have. Then the values are bound.
\<close>

definition bad_spelling :: "click_option \<Rightarrow> string option" where
  "bad_spelling opt =
     (if fst (split_opt (opt_decl opt)) = [] then Some (opt_decl opt)
      else if opt_secondary opt \<noteq> [] \<and> fst (split_opt (opt_secondary opt)) = []
      then Some (opt_secondary opt)
      else None)"

definition bind_options :: "click_option list \<Rightarrow> kwargs \<Rightarrow> error + kwargs" where
  "bind_options options supplied =
     (case List.map_filter bad_spelling options of
        spelling # _ \<Rightarrow> Inl (OptionValueError spelling)
      | [] \<Rightarrow>
          (case filter (\<lambda>k. k \<notin> set (map opt_name options)) (map fst supplied) of
             k # _ \<Rightarrow> Inl (NoSuchOption k)
           | [] \<Rightarrow> bind_values (processing_order options supplied) supplied []))"

definition deref :: "cli \<Rightarrow> entry \<Rightarrow> group option" where
  "deref main e = (case e of Direct g \<Rightarrow> Some g | MethodRef key \<Rightarrow> main_methods main key)"

definition find_command :: "cli \<Rightarrow> invocation \<Rightarrow> error + command" where
  "find_command main argv =
     (case main_commands main (inv_group argv) of
        None \<Rightarrow> Inl (NoSuchCommand (inv_group argv))
      | Some e \<Rightarrow>
          (case deref main e of
             None \<Rightarrow> Inl (NoSuchCommand (inv_group argv))
           | Some g \<Rightarrow>
               (case map_of (grp_commands g) (inv_command argv) of
                  None \<Rightarrow> Inl (NoSuchCommand (inv_command argv))
                | Some cmd \<Rightarrow> Inr cmd)))"

definition run_main :: "env \<Rightarrow> cli \<Rightarrow> invocation \<Rightarrow> error + string" where
  "run_main e main argv =
     (case find_command main argv of
        Inl err \<Rightarrow> Inl err
      | Inr cmd \<Rightarrow>
          (case bind_options (cmd_params cmd) (inv_options argv) of
             Inl err \<Rightarrow> Inl err
           | Inr kwargs \<Rightarrow>
               (case cmd_callback cmd of
                  Func method path parameters \<Rightarrow>
                    func method path parameters (httpx_request e) kwargs
                | Version \<Rightarrow> version (main_json main) (os_environ e))))"

text \<open>
  The process: \<open>main = create_cli()\<close>, then \<open>main()\<close>. It ends with status 0 when the
  command returns, with 2 on a usage error of the command line and with 1 on any other
  exception. The result is the exit status and what was written to standard output.
\<close>

fun exit_status :: "error \<Rightarrow> nat" where
  "exit_status (MissingParameter _) = 2"
| "exit_status (NoSuchOption _) = 2"
| "exit_status (NoSuchCommand _) = 2"
| "exit_status (BadParameter _) = 2"
| "exit_status _ = 1"

definition program :: "env \<Rightarrow> invocation \<Rightarrow> nat \<times> string" where
  "program e argv =
     (case create_cli e of
        Inl err \<Rightarrow> (exit_status err, [])
      | Inr main \<Rightarrow>
          (case run_main e main argv of
             Inl err \<Rightarrow> (exit_status err, [])
           | Inr out \<Rightarrow> (0, out)))"

section \<open>Notions used in the properties\<close>

text \<open>A string with no brace in it, as the name between the braces of a placeholder is.\<close>

definition brace_free :: "string \<Rightarrow> bool" where
  "brace_free s \<longleftrightarrow> CHR ''{'' \<notin> set s \<and> CHR ''}'' \<notin> set s"

text \<open>The names of the parameters whose \<open>in\<close> is \<open>path\<close>, in the order of the list.\<close>

definition path_names :: "parameter list \<Rightarrow> string list" where
  "path_names parameters = map par_name (filter (\<lambda>p. par_in p = ''path'') parameters)"

text \<open>
  The operations of a description: the pairs of a path and a method under it.
\<close>

definition operations :: "(string \<times> (string \<times> operation) list) list \<Rightarrow> (string \<times> string) set" where
  "operations paths = (\<Union>(path, obj)\<in>set paths. Pair path ` fst ` set obj)"

text \<open>The names of the commands of a group, in the order in which they were added.\<close>

definition leaves :: "group \<Rightarrow> string list" where
  "leaves g = map fst (grp_commands g)"

section \<open>Properties of \<open>str_to_type\<close>\<close>

text \<open>
  C5. \<open>str_to_type\<close> resolves \<open>integer\<close>, \<open>boolean\<close>, \<open>string\<close> and \<open>array\<close> to the
  Python types \<open>int\<close>, \<open>bool\<close>, \<open>str\<close> and \<open>list\<close> without an error, and on every other
  string it raises a \<open>TypeError\<close> whose message carries the offending name.
\<close>

theorem str_to_type_total:
  "str_to_type ''integer'' = Inr TInt \<and>
   str_to_type ''boolean'' = Inr TBool \<and>
   str_to_type ''string'' = Inr TStr \<and>
   str_to_type ''array'' = Inr TList \<and>
   (t \<notin> {''integer'', ''boolean'', ''string'', ''array''} \<longrightarrow>
      str_to_type t = Inl (TypeError (''Unknown type: '' @ t)))"
  by (simp add: str_to_type_def)

theorem str_to_type_total_witness:
  "''number'' \<notin> {''integer'', ''boolean'', ''string'', ''array''} \<and>
   str_to_type ''number'' = Inl (TypeError ''Unknown type: number'')"
  using str_to_type_total [of "''number''"] by simp

section \<open>Properties of the templating loop\<close>

lemma placeholder_Cons: "placeholder n = CHR ''{'' # n @ [CHR ''}'']"
  by (simp add: placeholder_def)

lemma placeholder_not_Nil: "placeholder n \<noteq> []"
  by (simp add: placeholder_def)

lemma replace_Nil: "old \<noteq> [] \<Longrightarrow> replace [] old new = []"
  by (simp add: replace.simps)

lemma replace_Cons:
  "old \<noteq> [] \<Longrightarrow>
   replace (c # cs) old new =
     (if prefix old (c # cs) then new @ replace (drop (length old) (c # cs)) old new
      else c # replace cs old new)"
  by (subst replace.simps) simp


lemma name_prefix_eq:
  "brace_free k \<Longrightarrow> brace_free n \<Longrightarrow> prefix (k @ [CHR ''}'']) (n @ CHR ''}'' # Y) \<Longrightarrow> k = n"
proof (induction k arbitrary: n)
  case Nil
  then show ?case by (cases n) (auto simp: brace_free_def)
next
  case (Cons a k)
  then show ?case by (cases n) (auto simp: brace_free_def)
qed

lemma replace_skip:
  "CHR ''{'' \<notin> set u \<Longrightarrow>
   replace (u @ Y) (CHR ''{'' # k') new = u @ replace Y (CHR ''{'' # k') new"
  by (induction u) (auto simp: replace_Cons)

lemma replace_at_placeholder:
  assumes "brace_free k" "brace_free n" "k \<noteq> n"
  shows "replace (placeholder n @ Y) (placeholder k) new = placeholder n @ replace Y (placeholder k) new"
proof -
  have np: "\<not> prefix (placeholder k) (placeholder n @ Y)"
    using assms name_prefix_eq [of k n Y] by (auto simp: placeholder_Cons)
  have "replace (placeholder n @ Y) (placeholder k) new
          = CHR ''{'' # replace ((n @ [CHR ''}'']) @ Y) (placeholder k) new"
    using np by (simp add: placeholder_Cons replace_Cons)
  also have "replace ((n @ [CHR ''}'']) @ Y) (placeholder k) new
          = (n @ [CHR ''}'']) @ replace Y (placeholder k) new"
    unfolding placeholder_Cons [of k]
    by (rule replace_skip) (use assms(2) in \<open>simp add: brace_free_def\<close>)
  finally show ?thesis by (simp add: placeholder_Cons)
qed

lemma no_straddle:
  assumes "brace_free k" "X \<noteq> []" "prefix (placeholder k) (X @ placeholder n @ Y)"
  shows "prefix (placeholder k) X"
proof -
  from assms(3) consider "prefix (placeholder k) X"
    | us where "placeholder k = X @ us" "prefix us (placeholder n @ Y)"
    by (auto simp: prefix_append)
  then show ?thesis
  proof cases
    case 1
    then show ?thesis .
  next
    case 2
    show ?thesis
    proof (cases us)
      case Nil
      with 2 show ?thesis by simp
    next
      case (Cons u us')
      with 2(2) have u: "u = CHR ''{''" by (simp add: placeholder_Cons)
      from assms(2) obtain x X1 where X: "X = x # X1" by (cases X) auto
      from 2(1) have e: "k @ [CHR ''}''] = X1 @ CHR ''{'' # us'"
        using X Cons u by (simp add: placeholder_Cons)
      have "CHR ''{'' \<in> set (k @ [CHR ''}''])" unfolding e by simp
      with assms(1) have False by (simp add: brace_free_def)
      then show ?thesis by simp
    qed
  qed
qed

lemma replace_prefix: "old \<noteq> [] \<Longrightarrow> replace (old @ s) old new = new @ replace s old new"
  by (subst replace.simps) simp

lemma replace_around:
  assumes k: "brace_free k" and n: "brace_free n" and kn: "k \<noteq> n"
  shows "replace (X @ placeholder n @ Y) (placeholder k) new
           = replace X (placeholder k) new @ placeholder n @ replace Y (placeholder k) new"
proof (induction X rule: length_induct)
  case (1 X)
  note ne = placeholder_not_Nil [of k]
  show ?case
  proof (cases X)
    case Nil
    then show ?thesis
      using replace_at_placeholder [OF k n kn] by (simp add: replace_Nil ne)
  next
    case (Cons c X')
    show ?thesis
    proof (cases "prefix (placeholder k) (X @ placeholder n @ Y)")
      case True
      have "X \<noteq> []" using Cons by simp
      from no_straddle [OF k this True] obtain R where R: "X = placeholder k @ R"
        by (auto simp: prefix_def)
      have len: "length R < length X" using R by (simp add: placeholder_Cons)
      have ih: "replace (R @ placeholder n @ Y) (placeholder k) new
                  = replace R (placeholder k) new @ placeholder n @ replace Y (placeholder k) new"
        using 1 len by blast
      show ?thesis
        unfolding R by (simp add: replace_prefix [OF ne] ih)
    next
      case False
      have npX: "\<not> prefix (placeholder k) (c # X')"
        using False Cons prefix_prefix [of "placeholder k" X "placeholder n @ Y"] by auto
      have np: "\<not> prefix (placeholder k) (c # X' @ placeholder n @ Y)"
        using False Cons by simp
      have len: "length X' < length X" using Cons by simp
      have ih: "replace (X' @ placeholder n @ Y) (placeholder k) new
                  = replace X' (placeholder k) new @ placeholder n @ replace Y (placeholder k) new"
        using 1 len by blast
      have l: "replace (c # X' @ placeholder n @ Y) (placeholder k) new
                 = c # replace (X' @ placeholder n @ Y) (placeholder k) new"
        using np by (simp add: replace_Cons [OF ne])
      have r: "replace (c # X') (placeholder k) new = c # replace X' (placeholder k) new"
        using npX by (simp add: replace_Cons [OF ne])
      show ?thesis
        unfolding Cons using l r ih by simp
    qed
  qed
qed


lemma template_no_path:
  "\<forall>p\<in>set ps. par_in p \<noteq> ''path'' \<Longrightarrow> template_path_params ps T kw = Inr (T, kw)"
  by (induction ps) auto


lemma template_keeps_placeholder:
  assumes "brace_free n"
    and "n \<notin> set (path_names ps)"
    and "\<forall>k\<in>fst ` set kw. brace_free k"
  shows "template_path_params ps (X @ placeholder n @ Y) kw =
          (case template_path_params ps X kw of
             Inl e \<Rightarrow> Inl e
           | Inr (X', kw') \<Rightarrow>
               (case template_path_params ps Y kw of
                  Inl e \<Rightarrow> Inl e
                | Inr (Y', kw'') \<Rightarrow> Inr (X' @ placeholder n @ Y', kw')))"
  using assms(2,3)
proof (induction ps arbitrary: X Y kw)
  case Nil
  then show ?case by simp
next
  case (Cons p ps)
  show ?case
  proof (cases "par_in p = ''path''")
    case False
    with Cons.prems(1) have n: "n \<notin> set (path_names ps)"
      by (simp add: path_names_def)
    have step: "\<And>T. template_path_params (p # ps) T kw = template_path_params ps T kw"
      using False by simp
    show ?thesis by (simp only: step Cons.IH [OF n Cons.prems(2)])
  next
    case True
    with Cons.prems(1) have kn: "par_name p \<noteq> n" and n: "n \<notin> set (path_names ps)"
      by (auto simp: path_names_def)
    show ?thesis
    proof (cases "map_of kw (par_name p)")
      case None
      then have "\<And>T. template_path_params (p # ps) T kw = Inl (KeyError (par_name p))"
        using True by (simp add: Let_def)
      then show ?thesis by simp
    next
      case (Some v)
      then have "(par_name p, v) \<in> set kw" by (rule map_of_SomeD)
      then have "par_name p \<in> fst ` set kw" by (rule rev_image_eqI) simp
      with Cons.prems(2) have k: "brace_free (par_name p)" by blast
      have keys: "\<forall>k\<in>fst ` set (AList.delete (par_name p) kw). brace_free k"
        using Cons.prems(2) dom_delete_subset [of "par_name p" kw] by blast
      have step: "\<And>T. template_path_params (p # ps) T kw =
          template_path_params ps (replace T (placeholder (par_name p)) (str v))
            (AList.delete (par_name p) kw)"
        using True Some by (simp add: Let_def)
      show ?thesis
        by (simp only: step replace_around [OF k assms(1) kn] Cons.IH [OF n keys])
    qed
  qed
qed

lemma template_split:
  assumes "distinct (path_names ps)" "set (path_names ps) \<subseteq> fst ` set kw"
  shows "\<exists>vs. map (map_of kw) (path_names ps) = map Some vs \<and>
           template_path_params ps T kw =
             Inr (foldl (\<lambda>s (n, v). replace s (placeholder n) (str v)) T (zip (path_names ps) vs),
                  filter (\<lambda>kv. fst kv \<notin> set (path_names ps)) kw)"
  using assms
proof (induction ps arbitrary: T kw)
  case Nil
  show ?case by (simp add: path_names_def)
next
  case (Cons p ps)
  show ?case
  proof (cases "par_in p = ''path''")
    case False
    then have pn: "path_names (p # ps) = path_names ps" by (simp add: path_names_def)
    have step: "template_path_params (p # ps) T kw = template_path_params ps T kw"
      using False by simp
    from Cons.prems have "distinct (path_names ps)" "set (path_names ps) \<subseteq> fst ` set kw"
      unfolding pn by auto
    from Cons.IH [OF this, of T] show ?thesis unfolding pn step .
  next
    case True
    let ?n = "par_name p"
    let ?F = "\<lambda>s (n, v). replace s (placeholder n) (str v)"
    let ?kw = "AList.delete ?n kw"
    have pn: "path_names (p # ps) = ?n # path_names ps"
      using True by (simp add: path_names_def)
    from Cons.prems have d: "distinct (path_names ps)"
      and notin: "?n \<notin> set (path_names ps)"
      and sub: "set (path_names ps) \<subseteq> fst ` set kw"
      and nin: "?n \<in> fst ` set kw"
      unfolding pn by auto
    from nin obtain v where v: "map_of kw ?n = Some v"
      by (cases "map_of kw ?n") (auto simp: map_of_eq_None_iff)
    have sub': "set (path_names ps) \<subseteq> fst ` set ?kw"
    proof
      fix x assume x: "x \<in> set (path_names ps)"
      with sub obtain y where "(x, y) \<in> set kw" by force
      moreover from x notin have "x \<noteq> ?n" by auto
      ultimately have "(x, y) \<in> set ?kw" by (auto simp: AList.delete_eq)
      then show "x \<in> fst ` set ?kw" by force
    qed
    from Cons.IH [OF d sub', of "replace T (placeholder ?n) (str v)"]
    obtain vs where vs: "map (map_of ?kw) (path_names ps) = map Some vs"
      and t: "template_path_params ps (replace T (placeholder ?n) (str v)) ?kw =
                Inr (foldl ?F (replace T (placeholder ?n) (str v)) (zip (path_names ps) vs),
                     filter (\<lambda>kv. fst kv \<notin> set (path_names ps)) ?kw)"
      by blast
    have m: "map (map_of kw) (path_names ps) = map (map_of ?kw) (path_names ps)"
      by (rule map_cong) (use notin in \<open>auto simp: AList.delete_conv\<close>)
    have f: "filter (\<lambda>kv. fst kv \<notin> set (path_names ps)) ?kw
               = filter (\<lambda>kv. fst kv \<notin> set (path_names (p # ps))) kw"
      unfolding AList.delete_eq filter_filter
      by (rule filter_cong) (auto simp: pn)
    have step: "template_path_params (p # ps) T kw =
                  template_path_params ps (replace T (placeholder ?n) (str v)) ?kw"
      using True v by (simp add: Let_def)
    have A: "map (map_of kw) (path_names (p # ps)) = map Some (v # vs)"
      using v m vs by (simp add: pn)
    have fo: "foldl ?F T (zip (path_names (p # ps)) (v # vs))
                = foldl ?F (replace T (placeholder ?n) (str v)) (zip (path_names ps) vs)"
      by (simp add: pn)
    have B: "template_path_params (p # ps) T kw =
               Inr (foldl ?F T (zip (path_names (p # ps)) (v # vs)),
                    filter (\<lambda>kv. fst kv \<notin> set (path_names (p # ps))) kw)"
      by (simp only: step t f fo)
    from A B show ?thesis by blast
  qed
qed




text \<open>
  C4 does not hold for every parameter list: with two path parameters of one name, the
  second \<open>kwargs[name]\<close> comes after the first \<open>del kwargs[name]\<close> and raises \<open>KeyError\<close>.
\<close>

theorem split_duplicate_counterexample:
  "template_path_params
     [\<lparr>par_name = ''id'', par_in = ''path'', par_required = None, par_description = None,
       par_schema = \<lparr>sch_type = None, sch_default = None\<rparr>\<rparr>,
      \<lparr>par_name = ''id'', par_in = ''path'', par_required = None, par_description = None,
       par_schema = \<lparr>sch_type = None, sch_default = None\<rparr>\<rparr>]
     ''/items/{id}'' [(''id'', PyStr ''7'')] = Inl (KeyError ''id'')"
  by (simp add: Let_def AList.delete_eq)

text \<open>
  C4, amended. When the path parameters have distinct names and each of them is a key of
  \<open>kwargs\<close>, the loop succeeds. What is left of \<open>kwargs\<close>, the query values, is the entries
  whose key is not the name of a path parameter; every key of \<open>kwargs\<close> is either the name
  of a path parameter or a key of the query values, never both; and the values put into
  the path are those \<open>kwargs\<close> has for the path parameters, in the order of the list.
\<close>

theorem split_partition:
  assumes "distinct (path_names parameters)"
    and "set (path_names parameters) \<subseteq> fst ` set kwargs"
  shows "\<exists>request_path query_values path_values.
           template_path_params parameters path kwargs = Inr (request_path, query_values) \<and>
           query_values = filter (\<lambda>kv. fst kv \<notin> set (path_names parameters)) kwargs \<and>
           (\<forall>k\<in>fst ` set kwargs.
              (k \<in> set (path_names parameters)) \<noteq> (k \<in> fst ` set query_values)) \<and>
           map (map_of kwargs) (path_names parameters) = map Some path_values \<and>
           request_path =
             foldl (\<lambda>s (n, v). replace s (placeholder n) (str v)) path
               (zip (path_names parameters) path_values)"
proof -
  from template_split [OF assms, of path] obtain vs
    where vs: "map (map_of kwargs) (path_names parameters) = map Some vs"
      and t: "template_path_params parameters path kwargs =
                Inr (foldl (\<lambda>s (n, v). replace s (placeholder n) (str v)) path
                       (zip (path_names parameters) vs),
                     filter (\<lambda>kv. fst kv \<notin> set (path_names parameters)) kwargs)"
    by blast
  have part: "\<forall>k\<in>fst ` set kwargs.
      (k \<in> set (path_names parameters))
        \<noteq> (k \<in> fst ` set (filter (\<lambda>kv. fst kv \<notin> set (path_names parameters)) kwargs))"
    by force
  from vs t part show ?thesis by blast
qed

theorem split_partition_witness:
  "distinct (path_names
     [\<lparr>par_name = ''id'', par_in = ''path'', par_required = None, par_description = None,
       par_schema = \<lparr>sch_type = None, sch_default = None\<rparr>\<rparr>,
      \<lparr>par_name = ''q'', par_in = ''query'', par_required = None, par_description = None,
       par_schema = \<lparr>sch_type = None, sch_default = None\<rparr>\<rparr>]) \<and>
   set (path_names
     [\<lparr>par_name = ''id'', par_in = ''path'', par_required = None, par_description = None,
       par_schema = \<lparr>sch_type = None, sch_default = None\<rparr>\<rparr>,
      \<lparr>par_name = ''q'', par_in = ''query'', par_required = None, par_description = None,
       par_schema = \<lparr>sch_type = None, sch_default = None\<rparr>\<rparr>])
     \<subseteq> fst ` set [(''id'', PyStr ''42''), (''q'', PyStr ''a'')] \<and>
   template_path_params
     [\<lparr>par_name = ''id'', par_in = ''path'', par_required = None, par_description = None,
       par_schema = \<lparr>sch_type = None, sch_default = None\<rparr>\<rparr>,
      \<lparr>par_name = ''q'', par_in = ''query'', par_required = None, par_description = None,
       par_schema = \<lparr>sch_type = None, sch_default = None\<rparr>\<rparr>]
     ''/items/{id}'' [(''id'', PyStr ''42''), (''q'', PyStr ''a'')]
     = Inr (''/items/42'', [(''q'', PyStr ''a'')])"
  using split_partition
    [of "[\<lparr>par_name = ''id'', par_in = ''path'', par_required = None, par_description = None,
           par_schema = \<lparr>sch_type = None, sch_default = None\<rparr>\<rparr>,
          \<lparr>par_name = ''q'', par_in = ''query'', par_required = None, par_description = None,
           par_schema = \<lparr>sch_type = None, sch_default = None\<rparr>\<rparr>]"
        "[(''id'', PyStr ''42''), (''q'', PyStr ''a'')]" "''/items/{id}''"]
  by (simp add: path_names_def Let_def placeholder_def replace_Cons replace_Nil AList.delete_eq)

section \<open>Properties of \<open>create_cli\<close> and of the process\<close>

text \<open>The definitions a run of the program on a concrete description unfolds.\<close>

lemmas cli_defs =
  program_def run_main_def find_command_def deref_def bind_options_def process_value_def
  processing_order_def bad_spelling_def
  func_def func_request_def create_cli_def create_cli_json_def raise_for_status_def
  method_keys_def create_command_def create_group_def add_command_def meta_def
  map_add_def print_def BASE_URL_def upper_def upper_char_def Let_def

text \<open>The definitions the making of an option unfolds.\<close>

lemmas option_defs =
  make_option_def parse_decl_def str_to_type_def isidentifier_def isalpha_def isalnum_def
  ascii_lowercase_def ascii_uppercase_def digits_def lower_def lower_char_def
  lstrip_def rstrip_def isspace_def Let_def

text \<open>
  C6. A command whose request gets a response prints the text of the response and the
  process ends with status 0, whatever the status code of the response: \<open>func\<close> does not
  look at it. When \<open>httpx.request\<close> raises instead, the exception leaves the process
  with a status that is not 0 and nothing is printed.
\<close>

theorem status_code_not_checked:
  assumes "create_cli e = Inr main"
    and "find_command main argv = Inr cmd"
    and "cmd_callback cmd = Func method path parameters"
    and "bind_options (cmd_params cmd) (inv_options argv) = Inr kwargs"
    and "func_request method path parameters kwargs = Inr r"
  shows "(httpx_request e r = Inr response \<longrightarrow>
            program e argv = (0, print (resp_text response))) \<and>
         (httpx_request e r = Inl err \<longrightarrow>
            program e argv = (exit_status err, []) \<and> exit_status err \<noteq> 0)"
proof -
  have "exit_status err \<noteq> 0" by (cases err) simp_all
  then show ?thesis
    using assms by (simp add: program_def run_main_def func_def)
qed

theorem status_code_not_checked_witness:
  "program
     \<lparr>httpx_get = (\<lambda>url. Inr \<lparr>resp_status_code = 200, resp_text = [],
        resp_json = Some \<lparr>doc_info = Some \<lparr>info_title = Some ''Demo'', info_description = None,
                                           info_version = Some ''1''\<rparr>,
                          doc_openapi = Some ''3.0.2'',
                          doc_paths = Some [(''/a'', [(''get'',
                            \<lparr>op_summary = None, op_description = None,
                             op_parameters = None\<rparr>)])]\<rparr>\<rparr>),
      httpx_request = (\<lambda>r. Inr \<lparr>resp_status_code = 404, resp_text = ''Not Found'',
                               resp_json = None\<rparr>),
      os_environ = Map.empty,
      click_convert = (\<lambda>ty v. Inr v)\<rparr>
     \<lparr>inv_group = ''get'', inv_command = ''/a'', inv_options = []\<rparr>
   = (0, ''Not Found'' @ [CHR 0x0A])"
  (is "program ?e ?argv = _")
proof -
  define main where "main = projr (create_cli ?e)"
  have 1: "create_cli ?e = Inr main"
    by (simp add: main_def cli_defs)
  have 2: "find_command main ?argv =
             Inr \<lparr>cmd_name = ''/a'', cmd_doc = [CHR 0x0A, CHR 0x0A], cmd_params = [],
                  cmd_callback = Func ''get'' ''/a'' []\<rparr>"
    by (simp add: main_def cli_defs)
  have 3: "cmd_callback \<lparr>cmd_name = ''/a'', cmd_doc = [CHR 0x0A, CHR 0x0A], cmd_params = [],
                  cmd_callback = Func ''get'' ''/a'' []\<rparr> = Func ''get'' ''/a'' []"
    by simp
  have 4: "bind_options (cmd_params \<lparr>cmd_name = ''/a'', cmd_doc = [CHR 0x0A, CHR 0x0A],
                  cmd_params = [], cmd_callback = Func ''get'' ''/a'' []\<rparr>)
             (inv_options ?argv) = Inr []"
    by (simp add: bind_options_def processing_order_def)
  have 5: "func_request ''get'' ''/a'' [] [] =
             Inr \<lparr>req_method = ''GET'', req_url = ''http://localhost:8000/a'', req_params = []\<rparr>"
    by (simp add: cli_defs)
  from status_code_not_checked [OF 1 2 3 4 5,
      of "\<lparr>resp_status_code = 404, resp_text = ''Not Found'', resp_json = None\<rparr>"]
  show ?thesis by (simp add: print_def)
qed

text \<open>
  C8. When the fetched document has an empty \<open>paths\<close>, \<open>create_cli\<close> raises and no root
  command is made: \<open>reduce\<close> has no initial value and nothing to fold. With \<open>info\<close> and
  \<open>title\<close> in the document, the exception is the \<open>TypeError\<close> of \<open>reduce\<close>.
\<close>

theorem empty_paths_raise:
  assumes "httpx_get e (BASE_URL @ ''/openapi.json'') = Inr response"
    and "raise_for_status response = Inr response"
    and "resp_json response = Some openapi_json"
    and "doc_paths openapi_json = Some []"
  shows "(\<exists>err. create_cli e = Inl err) \<and>
         (\<forall>info title. doc_info openapi_json = Some info \<and> info_title info = Some title \<longrightarrow>
            create_cli e = Inl (TypeError ''reduce() of empty iterable with no initial value''))"
  using assms
  by (auto simp: create_cli_def create_cli_json_def method_keys_def split: option.splits)

theorem empty_paths_raise_witness:
  "create_cli
     \<lparr>httpx_get = (\<lambda>url. Inr \<lparr>resp_status_code = 200, resp_text = [],
        resp_json = Some \<lparr>doc_info = Some \<lparr>info_title = Some ''Demo'', info_description = None,
                                           info_version = Some ''1''\<rparr>,
                          doc_openapi = Some ''3.0.2'',
                          doc_paths = Some []\<rparr>\<rparr>),
      httpx_request = (\<lambda>r. Inl (TransportError [])),
      os_environ = Map.empty,
      click_convert = (\<lambda>ty v. Inr v)\<rparr>
   = Inl (TypeError ''reduce() of empty iterable with no initial value'')"
  using empty_paths_raise
    [of "\<lparr>httpx_get = (\<lambda>url. Inr \<lparr>resp_status_code = 200, resp_text = [],
        resp_json = Some \<lparr>doc_info = Some \<lparr>info_title = Some ''Demo'', info_description = None,
                                           info_version = Some ''1''\<rparr>,
                          doc_openapi = Some ''3.0.2'',
                          doc_paths = Some []\<rparr>\<rparr>),
      httpx_request = (\<lambda>r. Inl (TransportError [])),
      os_environ = Map.empty,
      click_convert = (\<lambda>ty v. Inr v)\<rparr>"
        "\<lparr>resp_status_code = 200, resp_text = [],
        resp_json = Some \<lparr>doc_info = Some \<lparr>info_title = Some ''Demo'', info_description = None,
                                           info_version = Some ''1''\<rparr>,
                          doc_openapi = Some ''3.0.2'',
                          doc_paths = Some []\<rparr>\<rparr>"
        "\<lparr>doc_info = Some \<lparr>info_title = Some ''Demo'', info_description = None,
                                           info_version = Some ''1''\<rparr>,
                          doc_openapi = Some ''3.0.2'',
                          doc_paths = Some []\<rparr>"]
  by (simp add: raise_for_status_def)

text \<open>
  C2 does not hold for \<open>info.version\<close> and \<open>openapi\<close>: \<open>create_cli\<close> does not read them,
  the body of \<open>version\<close> does when that command runs. With a document that has neither,
  the command \<open>get /ping\<close> runs and the process ends with status 0.
\<close>

theorem missing_version_counterexample:
  "program
     \<lparr>httpx_get = (\<lambda>url. Inr \<lparr>resp_status_code = 200, resp_text = [],
        resp_json = Some \<lparr>doc_info = Some \<lparr>info_title = Some ''Demo'', info_description = None,
                                           info_version = None\<rparr>,
                          doc_openapi = None,
                          doc_paths = Some [(''/ping'', [(''get'',
                            \<lparr>op_summary = None, op_description = None,
                             op_parameters = None\<rparr>)])]\<rparr>\<rparr>),
      httpx_request = (\<lambda>r. Inr \<lparr>resp_status_code = 200, resp_text = ''pong'',
                               resp_json = None\<rparr>),
      os_environ = Map.empty,
      click_convert = (\<lambda>ty v. Inr v)\<rparr>
     \<lparr>inv_group = ''get'', inv_command = ''/ping'', inv_options = []\<rparr>
   = (0, ''pong'' @ [CHR 0x0A])"
  by (simp add: cli_defs)

text \<open>
  C2, amended. \<open>create_cli\<close> does not depend on \<open>info.version\<close> and \<open>openapi\<close>: whatever
  they are, there or not, it makes the same commands or raises the same exception. It
  raises \<open>KeyError\<close> when the fetched document lacks \<open>info\<close>, \<open>info.title\<close> or \<open>paths\<close>: the
  process then ends with status 1 and has printed nothing, whatever the command line. A
  document that lacks \<open>info.version\<close> or \<open>openapi\<close> makes the body of \<open>version\<close> raise
  \<open>KeyError\<close> when that command runs.
\<close>

theorem missing_title_or_paths_fails:
  assumes "httpx_get e (BASE_URL @ ''/openapi.json'') = Inr response"
    and "raise_for_status response = Inr response"
    and "resp_json response = Some openapi_json"
  shows "create_cli e = create_cli_json e openapi_json \<and>
         (\<forall>version' openapi'.
            create_cli_json e
              (openapi_json\<lparr>doc_openapi := openapi',
                 doc_info := map_option (\<lambda>info. info\<lparr>info_version := version'\<rparr>)
                               (doc_info openapi_json)\<rparr>) =
            map_sum id
              (\<lambda>main. main\<lparr>main_json :=
                 openapi_json\<lparr>doc_openapi := openapi',
                   doc_info := map_option (\<lambda>info. info\<lparr>info_version := version'\<rparr>)
                                 (doc_info openapi_json)\<rparr>\<rparr>)
              (create_cli_json e openapi_json)) \<and>
         (doc_info openapi_json = None \<or>
          (\<exists>info. doc_info openapi_json = Some info \<and> info_title info = None) \<or>
          doc_paths openapi_json = None \<longrightarrow>
            (\<exists>key. create_cli e = Inl (KeyError key)) \<and> program e argv = (1, [])) \<and>
         ((\<exists>info. doc_info openapi_json = Some info \<and> info_version info = None) \<or>
          doc_openapi openapi_json = None \<longrightarrow>
            (\<exists>key. version openapi_json (os_environ e) = Inl (KeyError key)))"
proof -
  have c: "create_cli e = create_cli_json e openapi_json"
    using assms by (simp add: create_cli_def)
  have i: "create_cli_json e
              (openapi_json\<lparr>doc_openapi := openapi',
                 doc_info := map_option (\<lambda>info. info\<lparr>info_version := version'\<rparr>)
                               (doc_info openapi_json)\<rparr>) =
            map_sum id
              (\<lambda>main. main\<lparr>main_json :=
                 openapi_json\<lparr>doc_openapi := openapi',
                   doc_info := map_option (\<lambda>info. info\<lparr>info_version := version'\<rparr>)
                                 (doc_info openapi_json)\<rparr>\<rparr>)
              (create_cli_json e openapi_json)" for version' openapi'
    by (simp add: create_cli_json_def Let_def split: option.splits sum.splits)
  have "doc_info openapi_json = None \<or>
          (\<exists>info. doc_info openapi_json = Some info \<and> info_title info = None) \<or>
          doc_paths openapi_json = None \<Longrightarrow>
        \<exists>key. create_cli_json e openapi_json = Inl (KeyError key)"
    by (auto simp: create_cli_json_def Let_def split: option.splits)
  then have 1: "doc_info openapi_json = None \<or>
          (\<exists>info. doc_info openapi_json = Some info \<and> info_title info = None) \<or>
          doc_paths openapi_json = None \<longrightarrow>
            (\<exists>key. create_cli e = Inl (KeyError key)) \<and> program e argv = (1, [])"
    unfolding c program_def by auto
  have 2: "(\<exists>info. doc_info openapi_json = Some info \<and> info_version info = None) \<or>
          doc_openapi openapi_json = None \<longrightarrow>
            (\<exists>key. version openapi_json (os_environ e) = Inl (KeyError key))"
    by (auto simp: version_def split: option.splits)
  from c i 1 2 show ?thesis by blast
qed

theorem missing_title_or_paths_fails_witness:
  "program
     \<lparr>httpx_get = (\<lambda>url. Inr \<lparr>resp_status_code = 200, resp_text = [],
        resp_json = Some \<lparr>doc_info = Some \<lparr>info_title = Some ''Demo'', info_description = None,
                                           info_version = Some ''1''\<rparr>,
                          doc_openapi = Some ''3.0.2'',
                          doc_paths = None\<rparr>\<rparr>),
      httpx_request = (\<lambda>r. Inr \<lparr>resp_status_code = 200, resp_text = ''pong'',
                               resp_json = None\<rparr>),
      os_environ = Map.empty,
      click_convert = (\<lambda>ty v. Inr v)\<rparr>
     \<lparr>inv_group = ''get'', inv_command = ''/ping'', inv_options = []\<rparr>
   = (1, [])"
  using missing_title_or_paths_fails
    [of "\<lparr>httpx_get = (\<lambda>url. Inr \<lparr>resp_status_code = 200, resp_text = [],
        resp_json = Some \<lparr>doc_info = Some \<lparr>info_title = Some ''Demo'', info_description = None,
                                           info_version = Some ''1''\<rparr>,
                          doc_openapi = Some ''3.0.2'',
                          doc_paths = None\<rparr>\<rparr>),
      httpx_request = (\<lambda>r. Inr \<lparr>resp_status_code = 200, resp_text = ''pong'',
                               resp_json = None\<rparr>),
      os_environ = Map.empty,
      click_convert = (\<lambda>ty v. Inr v)\<rparr>"
        "\<lparr>resp_status_code = 200, resp_text = [],
        resp_json = Some \<lparr>doc_info = Some \<lparr>info_title = Some ''Demo'', info_description = None,
                                           info_version = Some ''1''\<rparr>,
                          doc_openapi = Some ''3.0.2'',
                          doc_paths = None\<rparr>\<rparr>"
        "\<lparr>doc_info = Some \<lparr>info_title = Some ''Demo'', info_description = None,
                                           info_version = Some ''1''\<rparr>,
                          doc_openapi = Some ''3.0.2'',
                          doc_paths = None\<rparr>"
        "\<lparr>inv_group = ''get'', inv_command = ''/ping'', inv_options = []\<rparr>"]
  by (simp add: raise_for_status_def)

section \<open>Properties of the options and of their binding\<close>

lemma not_identifier_chars:
  "\<not> isalpha (CHR ''{'')" "\<not> isalpha (CHR ''}'')" "\<not> isalpha (CHR ''/'')" "\<not> isalpha (CHR ''-'')"
  "\<not> isalnum (CHR ''{'')" "\<not> isalnum (CHR ''}'')" "\<not> isalnum (CHR ''/'')" "\<not> isalnum (CHR ''-'')"
  by (simp_all add: isalnum_def isalpha_def ascii_lowercase_def ascii_uppercase_def digits_def)

lemma isalpha_isalnum: "isalpha c \<Longrightarrow> isalnum c"
  by (simp add: isalnum_def)

lemma isidentifier_chars:
  assumes "isidentifier s" and "c \<in> set s"
  shows "isalnum c \<or> c = CHR ''_''"
proof (cases s)
  case Nil
  with assms(2) show ?thesis by simp
next
  case (Cons a as)
  with assms(1) have a: "isalpha a \<or> a = CHR ''_''"
    and as: "\<forall>x\<in>set as. isalnum x \<or> x = CHR ''_''"
    by (simp_all add: isidentifier_def list_all_iff)
  from assms(2) Cons have "c = a \<or> c \<in> set as" by simp
  with a as show ?thesis using isalpha_isalnum by blast
qed

lemma isidentifier_brace_free: "isidentifier s \<Longrightarrow> brace_free s"
  unfolding brace_free_def
  using isidentifier_chars [of s "CHR ''{''"] isidentifier_chars [of s "CHR ''}''"]
  by (auto simp: not_identifier_chars)




text \<open>The name of an option is an identifier, whatever its declaration.\<close>

lemma parse_decl_name: "parse_decl decl = Inr (name, first, second) \<Longrightarrow> isidentifier name"
  by (auto simp: parse_decl_def Let_def split: if_splits)

lemma make_option_parse:
  "make_option e p = Inr opt \<Longrightarrow>
   \<exists>first second. parse_decl (''--'' @ par_name p) = Inr (opt_name opt, first, second)"
  by (auto simp: make_option_def Let_def split: sum.splits if_splits prod.splits)

lemma make_option_name: "make_option e p = Inr opt \<Longrightarrow> isidentifier (opt_name opt)"
  using make_option_parse parse_decl_name by blast







lemma add_parameters_origin:
  "add_parameters e ps = Inr opts \<Longrightarrow> opt \<in> set opts \<Longrightarrow> \<exists>p\<in>set ps. make_option e p = Inr opt"
  by (induction ps arbitrary: opts) (auto split: sum.splits)


lemma create_command_params:
  "create_command e method path documentation ps = Inr cmd \<Longrightarrow>
   \<exists>opts. add_parameters e ps = Inr opts \<and> cmd_params cmd = rev opts"
  by (auto simp: create_command_def split: sum.splits)

text \<open>The values bound: \<open>kwargs\<close> has the names of the options as its keys.\<close>

lemma bind_values_keys:
  "bind_values opts supplied acc = Inr kw \<Longrightarrow> fst ` set kw = fst ` set acc \<union> opt_name ` set opts"
proof (induction opts arbitrary: acc)
  case Nil
  then show ?case by simp
next
  case (Cons a opts)
  from Cons.prems obtain v
    where rest: "bind_values opts supplied (AList.update (opt_name a) v acc) = Inr kw"
    by (auto split: sum.splits)
  from Cons.IH [OF rest] show ?case by (auto simp: dom_update)
qed



lemma bind_values_error:
  "bind_values opts supplied acc = Inl err \<Longrightarrow> \<exists>opt\<in>set opts. process_value opt supplied = Inl err"
  by (induction opts arbitrary: acc) (auto split: sum.splits)

lemma bind_options_values:
  "bind_options opts supplied = Inr kw \<Longrightarrow>
   bind_values (processing_order opts supplied) supplied [] = Inr kw"
  by (auto simp: bind_options_def split: list.splits)

lemma set_processing_order: "set (processing_order opts supplied) = set opts"
  by (simp add: processing_order_def)


lemma bind_options_keys:
  "bind_options opts supplied = Inr kw \<Longrightarrow> fst ` set kw = opt_name ` set opts"
  using bind_values_keys [OF bind_options_values, of opts supplied kw]
  by (simp add: set_processing_order)


lemma bind_options_error:
  assumes "bind_options opts supplied = Inl (MissingParameter n)"
  shows "\<exists>opt\<in>set opts. process_value opt supplied = Inl (MissingParameter n)"
proof -
  from assms have "bind_values (processing_order opts supplied) supplied [] =
      Inl (MissingParameter n)"
    by (auto simp: bind_options_def split: list.splits)
  from bind_values_error [OF this] show ?thesis by (simp add: set_processing_order)
qed









text \<open>
  C7. With no path parameter the loop returns the template as it is, for every template
  and whatever \<open>kwargs\<close> is. In a command of the program, whatever its parameters and the
  command line the library has accepted: a placeholder \<open>{n}\<close>, \<open>n\<close> with no brace in it,
  whose name is not the name of a path parameter is kept where it stands. The text before
  it and the text after it are templated on their own, and the placeholder adds no error
  to theirs. The keys of \<open>kwargs\<close> are names of options, which are identifiers, so the loop
  replaces no text that has a brace of the placeholder in it.
\<close>

theorem unmatched_placeholder_kept:
  "((\<forall>p\<in>set qs. par_in p \<noteq> ''path'') \<longrightarrow> template_path_params qs T kw0 = Inr (T, kw0)) \<and>
   (create_command e method path documentation ps = Inr cmd \<and>
    bind_options (cmd_params cmd) supplied = Inr kw \<and>
    brace_free n \<and> n \<notin> set (path_names ps) \<longrightarrow>
      template_path_params ps (X @ placeholder n @ Y) kw =
        (case template_path_params ps X kw of
           Inl err \<Rightarrow> Inl err
         | Inr (X', kw') \<Rightarrow>
             (case template_path_params ps Y kw of
                Inl err \<Rightarrow> Inl err
              | Inr (Y', kw'') \<Rightarrow> Inr (X' @ placeholder n @ Y', kw'))))"
proof -
  have keys: "\<forall>k\<in>fst ` set kw. brace_free k"
    if c: "create_command e method path documentation ps = Inr cmd"
      and b: "bind_options (cmd_params cmd) supplied = Inr kw"
  proof
    fix k assume "k \<in> fst ` set kw"
    with bind_options_keys [OF b] obtain opt where o: "opt \<in> set (cmd_params cmd)"
      and k: "k = opt_name opt"
      by auto
    from create_command_params [OF c] obtain opts
      where opts: "add_parameters e ps = Inr opts" "cmd_params cmd = rev opts"
      by blast
    from o opts(2) have "opt \<in> set opts" by simp
    from add_parameters_origin [OF opts(1) this] obtain p where "make_option e p = Inr opt"
      by blast
    from make_option_name [OF this] k show "brace_free k"
      by (simp add: isidentifier_brace_free)
  qed
  show ?thesis
    using template_no_path [of qs T kw0] template_keeps_placeholder [of n ps kw X Y] keys
    by blast
qed

theorem unmatched_placeholder_kept_witness:
  "template_path_params
     [\<lparr>par_name = ''q'', par_in = ''query'', par_required = None, par_description = None,
       par_schema = \<lparr>sch_type = None, sch_default = None\<rparr>\<rparr>]
     ''/items/{id}'' [(''q'', PyStr ''a'')] = Inr (''/items/{id}'', [(''q'', PyStr ''a'')]) \<and>
   bind_options
     (cmd_params (projr (create_command
        \<lparr>httpx_get = (\<lambda>url. Inl (TransportError [])),
         httpx_request = (\<lambda>r. Inl (TransportError [])),
         os_environ = Map.empty,
         click_convert = (\<lambda>ty v. Inr v)\<rparr>
        ''get'' ''/items/{id}/{sub}/x'' []
        [\<lparr>par_name = ''id'', par_in = ''path'', par_required = None, par_description = None,
          par_schema = \<lparr>sch_type = None, sch_default = None\<rparr>\<rparr>])))
     [(''id'', PyStr ''42'')]
   = Inr [(''id'', PyStr ''42'')] \<and>
   brace_free ''sub'' \<and>
   template_path_params
     [\<lparr>par_name = ''id'', par_in = ''path'', par_required = None, par_description = None,
       par_schema = \<lparr>sch_type = None, sch_default = None\<rparr>\<rparr>]
     (''/items/{id}/'' @ placeholder ''sub'' @ ''/x'') [(''id'', PyStr ''42'')]
     = Inr (''/items/42/{sub}/x'', [])"
  (is "template_path_params [?q] _ _ = _ \<and>
       bind_options (cmd_params (projr (create_command ?e _ _ _ [?p]))) _ = _ \<and> _ \<and> _")
proof -
  define cmd where "cmd = projr (create_command ?e ''get'' ''/items/{id}/{sub}/x'' [] [?p])"
  have 1: "create_command ?e ''get'' ''/items/{id}/{sub}/x'' [] [?p] = Inr cmd"
    by (simp add: cmd_def create_command_def option_defs replace_Cons replace_Nil)
  have 2: "bind_options (cmd_params cmd) [(''id'', PyStr ''42'')] = Inr [(''id'', PyStr ''42'')]"
    by (simp add: cmd_def create_command_def bind_options_def processing_order_def
        bad_spelling_def process_value_def option_defs replace_Cons replace_Nil)
  have 3: "brace_free ''sub'' \<and> ''sub'' \<notin> set (path_names [?p])"
    by (simp add: brace_free_def path_names_def)
  from unmatched_placeholder_kept
    [of "[?q]" "''/items/{id}''" "[(''q'', PyStr ''a'')]" ?e "''get''" "''/items/{id}/{sub}/x''"
        "[]" "[?p]" cmd "[(''id'', PyStr ''42'')]" "[(''id'', PyStr ''42'')]" "''sub''"
        "''/items/{id}/''" "''/x''"] 1 2 3
  have "template_path_params [?q] ''/items/{id}'' [(''q'', PyStr ''a'')] =
          Inr (''/items/{id}'', [(''q'', PyStr ''a'')]) \<and>
        template_path_params [?p] (''/items/{id}/'' @ placeholder ''sub'' @ ''/x'')
          [(''id'', PyStr ''42'')] = Inr (''/items/42/{sub}/x'', [])"
    by (simp add: Let_def placeholder_def replace_Cons replace_Nil AList.delete_eq)
  with 2 3 show ?thesis by (simp add: cmd_def)
qed

section \<open>Properties of the command tree\<close>

lemma operations_Nil: "operations [] = {}"
  by (simp add: operations_def)

lemma operations_Cons:
  "operations ((path, obj) # paths) = Pair path ` fst ` set obj \<union> operations paths"
  by (simp add: operations_def)

lemma operations_Cons_method:
  "{p. (p, m) \<in> operations ((path, obj) # paths)} =
     (if m \<in> fst ` set obj then {path} else {}) \<union> {p. (p, m) \<in> operations paths}"
  unfolding operations_Cons by auto

lemma snd_operations:
  "snd ` operations paths = \<Union> (set (map (\<lambda>obj. set (map fst obj)) (map snd paths)))"
proof (induction paths)
  case Nil
  then show ?case by (simp add: operations_Nil)
next
  case (Cons a paths)
  obtain path obj where a: "a = (path, obj)" by (cases a)
  have "snd ` Pair path ` fst ` set obj = fst ` set obj"
    by (simp add: image_image)
  with Cons show ?case
    unfolding a operations_Cons image_Un by simp
qed

lemma foldl_union: "foldl (\<union>) s ss = s \<union> \<Union> (set ss)"
  by (induction ss arbitrary: s) auto

lemma method_keys_operations:
  assumes "method_keys paths = Inr keys"
  shows "keys = snd ` operations paths"
proof (cases paths)
  case Nil
  with assms show ?thesis by (simp add: method_keys_def)
next
  case (Cons a rest)
  with assms have "keys = \<Union> (set (map (\<lambda>obj. set (map fst obj)) (map snd paths)))"
    by (simp add: method_keys_def foldl_union)
  then show ?thesis by (simp only: snd_operations)
qed

lemma leaves_add_command:
  "set (leaves (add_command f g)) = insert (cmd_name f) (set (leaves g))"
  by (simp add: leaves_def add_command_def dom_update)

lemma distinct_leaves_add_command:
  "distinct (leaves g) \<Longrightarrow> distinct (leaves (add_command f g))"
  by (simp add: leaves_def add_command_def distinct_update)

lemma add_command_names:
  "grp_name (add_command f g) = grp_name g" "grp_doc (add_command f g) = grp_doc g"
  by (simp_all add: add_command_def)

lemma create_command_name:
  "create_command e method path documentation parameters = Inr f \<Longrightarrow> cmd_name f = path"
  by (auto simp: create_command_def split: sum.splits)

lemma add_operations_groups:
  assumes "add_operations e path obj methods = Inr methods'" and "methods m = Some g"
  shows "\<exists>g'. methods' m = Some g' \<and> grp_name g' = grp_name g \<and> grp_doc g' = grp_doc g \<and>
           set (leaves g') = set (leaves g) \<union> (if m \<in> fst ` set obj then {path} else {}) \<and>
           (distinct (leaves g) \<longrightarrow> distinct (leaves g'))"
  using assms
proof (induction obj arbitrary: methods g)
  case Nil
  then show ?case by simp
next
  case (Cons a obj)
  obtain key mobj where a: "a = (key, mobj)" by (cases a)
  define summary where "summary = (case op_summary mobj of None \<Rightarrow> [] | Some s \<Rightarrow> s)
                      @ [CHR 0x0A, CHR 0x0A]
                      @ (case op_description mobj of None \<Rightarrow> [] | Some d \<Rightarrow> d)"
  define parameters where "parameters = (case op_parameters mobj of None \<Rightarrow> [] | Some ps \<Rightarrow> ps)"
  have step: "add_operations e path ((key, mobj) # obj) methods =
      (case create_command e key path summary parameters of
         Inl err \<Rightarrow> Inl err
       | Inr f \<Rightarrow>
           (case methods key of
              None \<Rightarrow> Inl (KeyError key)
            | Some g \<Rightarrow> add_operations e path obj (methods(key \<mapsto> add_command f g))))"
    by (simp add: summary_def parameters_def Let_def)
  from Cons.prems(1) obtain f g0
    where cc: "create_command e key path summary parameters = Inr f"
    and g0: "methods key = Some g0"
    and rest: "add_operations e path obj (methods(key \<mapsto> add_command f g0)) = Inr methods'"
    unfolding a step by (auto split: sum.splits option.splits)
  note f = create_command_name [OF cc]
  show ?case
  proof (cases "m = key")
    case True
    with g0 Cons.prems(2) have gg: "g0 = g" by simp
    have "(methods(key \<mapsto> add_command f g0)) m = Some (add_command f g)"
      using True gg by simp
    from Cons.IH [OF rest this] obtain g' where g': "methods' m = Some g'"
      "grp_name g' = grp_name g" "grp_doc g' = grp_doc g"
      "set (leaves g') = insert path (set (leaves g)) \<union> (if m \<in> fst ` set obj then {path} else {})"
      "distinct (leaves (add_command f g)) \<longrightarrow> distinct (leaves g')"
      by (auto simp: add_command_names leaves_add_command f)
    have "set (leaves g') =
            set (leaves g) \<union> (if m \<in> fst ` set (a # obj) then {path} else {})"
      using g'(4) True a by auto
    moreover have "distinct (leaves g) \<longrightarrow> distinct (leaves g')"
      using g'(5) distinct_leaves_add_command [of g f] by blast
    ultimately show ?thesis using g'(1-3) by blast
  next
    case False
    then have "(methods(key \<mapsto> add_command f g0)) m = Some g"
      using Cons.prems(2) by simp
    from Cons.IH [OF rest this] obtain g' where g': "methods' m = Some g'"
      "grp_name g' = grp_name g" "grp_doc g' = grp_doc g"
      "set (leaves g') = set (leaves g) \<union> (if m \<in> fst ` set obj then {path} else {})"
      "distinct (leaves g) \<longrightarrow> distinct (leaves g')"
      by blast
    have "(m \<in> fst ` set (a # obj)) = (m \<in> fst ` set obj)"
      using False a by auto
    with g' show ?thesis by simp
  qed
qed

lemma add_paths_groups:
  assumes "add_paths e paths methods = Inr methods'" and "methods m = Some g"
  shows "\<exists>g'. methods' m = Some g' \<and> grp_name g' = grp_name g \<and> grp_doc g' = grp_doc g \<and>
           set (leaves g') = set (leaves g) \<union> {p. (p, m) \<in> operations paths} \<and>
           (distinct (leaves g) \<longrightarrow> distinct (leaves g'))"
  using assms
proof (induction paths arbitrary: methods g)
  case Nil
  then show ?case by (simp add: operations_Nil)
next
  case (Cons a paths)
  obtain path obj where a: "a = (path, obj)" by (cases a)
  from Cons.prems(1) obtain methods1
    where one: "add_operations e path obj methods = Inr methods1"
      and rest: "add_paths e paths methods1 = Inr methods'"
    unfolding a by (auto split: sum.splits)
  from add_operations_groups [OF one Cons.prems(2)] obtain g1 where g1:
    "methods1 m = Some g1" "grp_name g1 = grp_name g" "grp_doc g1 = grp_doc g"
    "set (leaves g1) = set (leaves g) \<union> (if m \<in> fst ` set obj then {path} else {})"
    "distinct (leaves g) \<longrightarrow> distinct (leaves g1)"
    by blast
  from Cons.IH [OF rest g1(1)] obtain g' where g':
    "methods' m = Some g'" "grp_name g' = grp_name g1" "grp_doc g' = grp_doc g1"
    "set (leaves g') = set (leaves g1) \<union> {p. (p, m) \<in> operations paths}"
    "distinct (leaves g1) \<longrightarrow> distinct (leaves g')"
    by blast
  have "set (leaves g') = set (leaves g) \<union> {p. (p, m) \<in> operations (a # paths)}"
    unfolding a operations_Cons_method g'(4) g1(4) by (simp add: Un_assoc)
  with g' g1 show ?case by simp
qed

lemma create_cli_json_groups:
  assumes "create_cli_json e d = Inr main" and "doc_paths d = Some paths"
  shows "main_json main = d"
    and "main_commands main =
           [''meta'' \<mapsto> Direct meta] ++
           (\<lambda>method. if method \<in> snd ` operations paths then Some (MethodRef method) else None)"
    and "m \<in> snd ` operations paths \<Longrightarrow>
           \<exists>g. main_methods main m = Some g \<and> grp_name g = m \<and>
               grp_doc g = ''Collection of '' @ m @ '' calls'' \<and>
               set (leaves g) = {p. (p, m) \<in> operations paths} \<and> distinct (leaves g)"
proof -
  from assms obtain doc keys methods' where keys: "method_keys paths = Inr keys"
    and ap: "add_paths e paths
               (\<lambda>method. if method \<in> keys
                  then Some (create_group method (''Collection of '' @ method @ '' calls''))
                  else None) = Inr methods'"
    and main: "main = \<lparr>main_doc = doc,
                 main_commands = [''meta'' \<mapsto> Direct meta] ++
                   (\<lambda>method. if method \<in> keys then Some (MethodRef method) else None),
                 main_methods = methods', main_json = d\<rparr>"
    by (auto simp: create_cli_json_def Let_def split: option.splits sum.splits)
  note k = method_keys_operations [OF keys]
  show "main_json main = d" by (simp add: main)
  show "main_commands main =
           [''meta'' \<mapsto> Direct meta] ++
           (\<lambda>method. if method \<in> snd ` operations paths then Some (MethodRef method) else None)"
    by (simp add: main k)
  show "\<exists>g. main_methods main m = Some g \<and> grp_name g = m \<and>
               grp_doc g = ''Collection of '' @ m @ '' calls'' \<and>
               set (leaves g) = {p. (p, m) \<in> operations paths} \<and> distinct (leaves g)"
    if m: "m \<in> snd ` operations paths"
  proof -
    have "(\<lambda>method. if method \<in> keys
                  then Some (create_group method (''Collection of '' @ method @ '' calls''))
                  else None) m = Some (create_group m (''Collection of '' @ m @ '' calls''))"
      using m k by simp
    from add_paths_groups [OF ap this] show ?thesis
      by (auto simp: main create_group_def leaves_def)
  qed
qed

lemma create_cli_json_of_create_cli:
  "create_cli e = Inr main \<Longrightarrow> create_cli_json e (main_json main) = Inr main"
proof -
  assume c: "create_cli e = Inr main"
  then obtain d where d: "create_cli_json e d = Inr main"
    by (auto simp: create_cli_def split: sum.splits option.splits)
  then have "main_json main = d"
    by (auto simp: create_cli_json_def Let_def split: option.splits sum.splits)
  with d show ?thesis by simp
qed

text \<open>
  C3. For a description whose operations are \<open>get /a\<close>, \<open>get /b\<close> and \<open>post /a\<close>, the
  commands of \<open>main\<close> are \<open>meta\<close>, \<open>get\<close> and \<open>post\<close>. The group \<open>get\<close> is named \<open>get\<close>,
  has the help text \<open>Collection of get calls\<close> and the commands \<open>/a\<close> and \<open>/b\<close>, each
  once; the group \<open>post\<close> is named \<open>post\<close>, has the help text \<open>Collection of post calls\<close>
  and the one command \<open>/a\<close>.
\<close>

theorem three_operations_tree:
  assumes "create_cli e = Inr main"
    and "doc_paths (main_json main) = Some paths"
    and "operations paths = {(''/a'', ''get''), (''/b'', ''get''), (''/a'', ''post'')}"
  shows "dom (main_commands main) = {''meta'', ''get'', ''post''} \<and>
         (\<exists>g. main_commands main ''get'' = Some (MethodRef ''get'') \<and>
              main_methods main ''get'' = Some g \<and> grp_name g = ''get'' \<and>
              grp_doc g = ''Collection of get calls'' \<and>
              set (leaves g) = {''/a'', ''/b''} \<and> distinct (leaves g)) \<and>
         (\<exists>g. main_commands main ''post'' = Some (MethodRef ''post'') \<and>
              main_methods main ''post'' = Some g \<and> grp_name g = ''post'' \<and>
              grp_doc g = ''Collection of post calls'' \<and>
              set (leaves g) = {''/a''} \<and> distinct (leaves g))"
proof -
  note j = create_cli_json_of_create_cli [OF assms(1)]
  note c = create_cli_json_groups(2) [OF j assms(2)]
  have keys: "snd ` operations paths = {''get'', ''post''}"
    unfolding assms(3) by auto
  have d: "dom (main_commands main) = {''meta'', ''get'', ''post''}"
    unfolding c keys by (auto simp: dom_def map_add_def split: if_splits)
  have cg: "main_commands main ''get'' = Some (MethodRef ''get'')"
    unfolding c keys by (simp add: map_add_def)
  have cp: "main_commands main ''post'' = Some (MethodRef ''post'')"
    unfolding c keys by (simp add: map_add_def)
  have lg: "{p. (p, ''get'') \<in> operations paths} = {''/a'', ''/b''}"
    unfolding assms(3) by auto
  have lp: "{p. (p, ''post'') \<in> operations paths} = {''/a''}"
    unfolding assms(3) by auto
  have "''get'' \<in> snd ` operations paths" unfolding keys by simp
  from create_cli_json_groups(3) [OF j assms(2) this]
  have g: "\<exists>g. main_methods main ''get'' = Some g \<and> grp_name g = ''get'' \<and>
              grp_doc g = ''Collection of get calls'' \<and>
              set (leaves g) = {''/a'', ''/b''} \<and> distinct (leaves g)"
    unfolding lg by simp
  have "''post'' \<in> snd ` operations paths" unfolding keys by simp
  from create_cli_json_groups(3) [OF j assms(2) this]
  have p: "\<exists>g. main_methods main ''post'' = Some g \<and> grp_name g = ''post'' \<and>
              grp_doc g = ''Collection of post calls'' \<and>
              set (leaves g) = {''/a''} \<and> distinct (leaves g)"
    unfolding lp by simp
  from d cg cp g p show ?thesis by blast
qed

theorem three_operations_tree_witness:
  "\<exists>main.
     create_cli
       \<lparr>httpx_get = (\<lambda>url. Inr \<lparr>resp_status_code = 200, resp_text = [],
          resp_json = Some \<lparr>doc_info = Some \<lparr>info_title = Some ''Demo'', info_description = None,
                                             info_version = Some ''1''\<rparr>,
                            doc_openapi = Some ''3.0.2'',
                            doc_paths = Some
                              [(''/a'', [(''get'', \<lparr>op_summary = None, op_description = None,
                                                   op_parameters = None\<rparr>),
                                        (''post'', \<lparr>op_summary = None, op_description = None,
                                                    op_parameters = None\<rparr>)]),
                               (''/b'', [(''get'', \<lparr>op_summary = None, op_description = None,
                                                   op_parameters = None\<rparr>)])]\<rparr>\<rparr>),
        httpx_request = (\<lambda>r. Inl (TransportError [])),
        os_environ = Map.empty,
      click_convert = (\<lambda>ty v. Inr v)\<rparr> = Inr main \<and>
     dom (main_commands main) = {''meta'', ''get'', ''post''} \<and>
     map_option leaves (main_methods main ''get'') = Some [''/a'', ''/b''] \<and>
     map_option leaves (main_methods main ''post'') = Some [''/a'']"
  (is "\<exists>main. create_cli ?e = Inr main \<and> _")
proof -
  define main where "main = projr (create_cli ?e)"
  have 1: "create_cli ?e = Inr main"
    by (simp add: main_def create_cli_def create_cli_json_def raise_for_status_def
        method_keys_def create_command_def create_group_def add_command_def Let_def)
  have 2: "doc_paths (main_json main) = Some
             [(''/a'', [(''get'', \<lparr>op_summary = None, op_description = None,
                                  op_parameters = None\<rparr>),
                       (''post'', \<lparr>op_summary = None, op_description = None,
                                   op_parameters = None\<rparr>)]),
              (''/b'', [(''get'', \<lparr>op_summary = None, op_description = None,
                                  op_parameters = None\<rparr>)])]"
    by (simp add: main_def create_cli_def create_cli_json_def raise_for_status_def
        method_keys_def create_command_def create_group_def add_command_def Let_def)
  have 3: "operations
             [(''/a'', [(''get'', \<lparr>op_summary = None, op_description = None,
                                  op_parameters = None\<rparr>),
                       (''post'', \<lparr>op_summary = None, op_description = None,
                                   op_parameters = None\<rparr>)]),
              (''/b'', [(''get'', \<lparr>op_summary = None, op_description = None,
                                  op_parameters = None\<rparr>)])]
           = {(''/a'', ''get''), (''/b'', ''get''), (''/a'', ''post'')}"
    by (simp add: operations_def insert_commute)
  have g: "map_option leaves (main_methods main ''get'') = Some [''/a'', ''/b'']"
    by (simp add: main_def create_cli_def create_cli_json_def raise_for_status_def
        method_keys_def create_command_def create_group_def add_command_def Let_def leaves_def)
  have p: "map_option leaves (main_methods main ''post'') = Some [''/a'']"
    by (simp add: main_def create_cli_def create_cli_json_def raise_for_status_def
        method_keys_def create_command_def create_group_def add_command_def Let_def leaves_def)
  from three_operations_tree [OF 1 2 3]
  have d: "dom (main_commands main) = {''meta'', ''get'', ''post''}" by (rule conjunct1)
  from 1 d g p show ?thesis by (intro exI [of _ main] conjI)
qed

end
